theory Spec2Isabelle
  imports Complex_Main
begin

section \<open>Pulse sequences for the Wieserlabs DDS (wieserlabsdds/pulse.py)\<close>

text \<open>
  A shallow embedding of \<^verbatim>\<open>pulse.py\<close>. Python floats are idealised as reals, Python
  ints as \<open>int\<close>. The DDS client (\<^verbatim>\<open>self.dds\<close>) is an external collaborator: it is
  modelled as a log that records every method call with the arguments the source passes,
  in the order of the calls. \<^verbatim>\<open>print\<close> appends to a second log.
\<close>

subsection \<open>Pulses\<close>

text \<open>
  The class of a pulse object: \<^verbatim>\<open>Pulse\<close> or one of its subclasses \<^verbatim>\<open>XPulse\<close>,
  \<^verbatim>\<open>YPulse\<close>. The subclasses add no attribute; they differ in \<^verbatim>\<open>__str__\<close> only.
\<close>

datatype pulse_class = PulseC | XPulseC | YPulseC

text \<open>
  The attributes of a pulse. The source's attribute \<^verbatim>\<open>t\<close> is the field \<open>dur\<close> here
  (a constant named \<open>t\<close> would capture that variable name everywhere).
\<close>

record Pulse =
  freq :: real
  amp :: real
  phase :: real
  dur :: real
  cls :: pulse_class

definition Pulse_init :: "real \<Rightarrow> real \<Rightarrow> real \<Rightarrow> real \<Rightarrow> Pulse" where
  "Pulse_init f a ph d = \<lparr>freq = f, amp = a, phase = ph, dur = d, cls = PulseC\<rparr>"

definition XPulse_init :: "real \<Rightarrow> real \<Rightarrow> real \<Rightarrow> Pulse" where
  "XPulse_init f a d = (Pulse_init f a 0 d)\<lparr>cls := XPulseC\<rparr>"

definition YPulse_init :: "real \<Rightarrow> real \<Rightarrow> real \<Rightarrow> Pulse" where
  "YPulse_init f a d = (Pulse_init f a 90 d)\<lparr>cls := YPulseC\<rparr>"

subsection \<open>The device port and the output stream\<close>

text \<open>
  Modelled from the spec: the enumeration \<^verbatim>\<open>wieserlabsdds.TriggerEvent\<close> is not under
  src/. The source names one member, \<^verbatim>\<open>BNC_IN_A_RISING\<close>; the others are opaque tokens.
\<close>

datatype TriggerEvent = BNC_IN_A_RISING | OtherTrigger nat

text \<open>
  One constructor per method of the client that \<^verbatim>\<open>pulse.py\<close> calls, with the arguments
  of the call sites:
  \<^item> \<^verbatim>\<open>single_tone(slot, channel, freq=, amp=, phase=, suffix=)\<close>
  \<^item> \<^verbatim>\<open>push_update(slot, channel)\<close>
  \<^item> \<^verbatim>\<open>wait_trigger(slot, channel, trigger, update_before_wait=)\<close>
  \<^item> \<^verbatim>\<open>wait_time(t, update_before_wait=)\<close>: the source passes no slot and no channel
  \<^item> \<^verbatim>\<open>run(slot)\<close>
\<close>

datatype dds_call =
    SingleTone int int real real real "string option"
  | PushUpdate int int
  | WaitTrigger int int "TriggerEvent list" bool
  | WaitTime real bool
  | Run int

record world =
  calls :: "dds_call list"
  stdout :: "string list"

datatype py_error = AttributeError string | IndexError

subsection \<open>Sequences\<close>

text \<open>
  The attributes of a \<^verbatim>\<open>PulseSequence\<close> object. \<^verbatim>\<open>__init__\<close> never assigns the
  attribute \<^verbatim>\<open>channel\<close>, so it may be absent (\<open>None\<close>); reading an absent attribute
  raises \<^verbatim>\<open>AttributeError\<close>. It is present only when the caller has assigned it on the
  object.
\<close>

record PulseSequence =
  slot :: int
  channel :: "int option"
  default_freq :: real
  default_amp :: real
  pulses :: "Pulse list"
  generated :: bool

record QubitPulseSequence = PulseSequence +
  seq_freq :: real
  seq_amp :: real
  pi_pulse_time :: real

text \<open>
  \<^verbatim>\<open>self.slot = slot\<close>, then \<^verbatim>\<open>self.slot = channel\<close>: the second assignment overwrites
  the first.
\<close>

definition PulseSequence_init :: "int \<Rightarrow> int \<Rightarrow> real \<Rightarrow> real \<Rightarrow> PulseSequence" where
  "PulseSequence_init slot0 channel0 default_freq0 default_amp0 =
     (\<lparr>slot = slot0, channel = None, default_freq = default_freq0,
       default_amp = default_amp0, pulses = [], generated = False\<rparr>)\<lparr>slot := channel0\<rparr>"

definition QubitPulseSequence_init ::
    "int \<Rightarrow> int \<Rightarrow> real \<Rightarrow> real \<Rightarrow> real \<Rightarrow> QubitPulseSequence" where
  "QubitPulseSequence_init slot0 channel0 pi_pulse_time0 freq0 amp0 =
     PulseSequence.extend (PulseSequence_init slot0 channel0 freq0 amp0)
       (QubitPulseSequence.fields freq0 amp0 pi_pulse_time0)"

text \<open>\<^verbatim>\<open>PulseSequence.add_pulse(t, freq=None, amp=None, phase=0)\<close>\<close>

definition add_pulse ::
    "real \<Rightarrow> real option \<Rightarrow> real option \<Rightarrow> real \<Rightarrow> 'z PulseSequence_scheme \<Rightarrow> 'z PulseSequence_scheme" where
  "add_pulse d f a ph self =
     (let f' = (case f of None \<Rightarrow> default_freq self | Some x \<Rightarrow> x);
          a' = (case a of None \<Rightarrow> default_amp self | Some x \<Rightarrow> x)
      in self\<lparr>pulses := pulses self @ [Pulse_init f' a' ph d]\<rparr>)"

definition angle_to_time :: "'z QubitPulseSequence_scheme \<Rightarrow> real \<Rightarrow> real" where
  "angle_to_time self theta = theta / pi * pi_pulse_time self"

text \<open>\<^verbatim>\<open>QubitPulseSequence.add_pulse(phi, theta)\<close>, which overrides the method above.\<close>

definition QubitPulseSequence_add_pulse ::
    "real \<Rightarrow> real \<Rightarrow> 'z QubitPulseSequence_scheme \<Rightarrow> 'z QubitPulseSequence_scheme" where
  "QubitPulseSequence_add_pulse phi theta self =
     self\<lparr>pulses := pulses self @
       [Pulse_init (seq_freq self) (seq_amp self) (phi / pi * 180) (angle_to_time self theta)]\<rparr>"

definition add_x_pulse :: "real \<Rightarrow> 'z QubitPulseSequence_scheme \<Rightarrow> 'z QubitPulseSequence_scheme" where
  "add_x_pulse theta self =
     self\<lparr>pulses := pulses self @
       [XPulse_init (seq_freq self) (seq_amp self) (angle_to_time self theta)]\<rparr>"

definition add_y_pulse :: "real \<Rightarrow> 'z QubitPulseSequence_scheme \<Rightarrow> 'z QubitPulseSequence_scheme" where
  "add_y_pulse theta self =
     self\<lparr>pulses := pulses self @
       [YPulse_init (seq_freq self) (seq_amp self) (angle_to_time self theta)]\<rparr>"

subsection \<open>Statements with effects and exceptions\<close>

text \<open>
  A method body runs on the pair of the object and the world. It ends with a value or with
  a raised exception (\<open>Inl\<close>), and in both cases with the object and the world as they are
  at that point.
\<close>

type_synonym ('z, 'a) exec =
  "'z PulseSequence_scheme \<times> world \<Rightarrow> (py_error + 'a) \<times> 'z PulseSequence_scheme \<times> world"

definition returnE :: "'a \<Rightarrow> ('z, 'a) exec" where
  "returnE a st = (Inr a, st)"

definition bindE :: "('z, 'a) exec \<Rightarrow> ('a \<Rightarrow> ('z, 'b) exec) \<Rightarrow> ('z, 'b) exec" where
  "bindE m f st = (case m st of (Inl e, st') \<Rightarrow> (Inl e, st') | (Inr a, st') \<Rightarrow> f a st')"

text \<open>Reading an attribute that \<^verbatim>\<open>__init__\<close> always sets.\<close>

definition attr :: "('z PulseSequence_scheme \<Rightarrow> 'a) \<Rightarrow> ('z, 'a) exec" where
  "attr field st = (Inr (field (fst st)), st)"

text \<open>\<^verbatim>\<open>self.channel\<close>\<close>

definition attr_channel :: "('z, int) exec" where
  "attr_channel st =
     (case channel (fst st) of
        None \<Rightarrow> (Inl (AttributeError ''channel''), st)
      | Some c \<Rightarrow> (Inr c, st))"

text \<open>\<^verbatim>\<open>xs[i]\<close> on a list: a negative index counts from the end.\<close>

definition py_index :: "'a list \<Rightarrow> int \<Rightarrow> py_error + 'a" where
  "py_index xs i =
     (if 0 \<le> i \<and> i < int (length xs) then Inr (xs ! nat i)
      else if i < 0 \<and> - int (length xs) \<le> i then Inr (xs ! nat (int (length xs) + i))
      else Inl IndexError)"

text \<open>\<^verbatim>\<open>self.pulses[i]\<close>\<close>

definition pulse_at :: "int \<Rightarrow> ('z, Pulse) exec" where
  "pulse_at i st = (py_index (pulses (fst st)) i, st)"

definition print :: "string \<Rightarrow> ('z, unit) exec" where
  "print msg st = (Inr (), fst st, (snd st)\<lparr>stdout := stdout (snd st) @ [msg]\<rparr>)"

text \<open>A call of a method of \<^verbatim>\<open>self.dds\<close>, the arguments already evaluated.\<close>

definition dds :: "dds_call \<Rightarrow> ('z, unit) exec" where
  "dds c st = (Inr (), fst st, (snd st)\<lparr>calls := calls (snd st) @ [c]\<rparr>)"

definition set_generated :: "bool \<Rightarrow> ('z, unit) exec" where
  "set_generated b st = (Inr (), (fst st)\<lparr>generated := b\<rparr>, snd st)"

text \<open>
  \<^verbatim>\<open>self.dds.single_tone(self.slot, self.channel, freq=f, amp=a, phase=ph, suffix=sfx)\<close>:
  the arguments are evaluated left to right, then the call is made.
\<close>

definition single_tone :: "real \<Rightarrow> real \<Rightarrow> real \<Rightarrow> string option \<Rightarrow> ('z, unit) exec" where
  "single_tone f a ph sfx =
     bindE (attr slot) (\<lambda>sl.
     bindE attr_channel (\<lambda>ch.
     dds (SingleTone sl ch f a ph sfx)))"

text \<open>\<^verbatim>\<open>self.dds.push_update(self.slot, self.channel)\<close>\<close>

definition push_update :: "('z, unit) exec" where
  "push_update =
     bindE (attr slot) (\<lambda>sl.
     bindE attr_channel (\<lambda>ch.
     dds (PushUpdate sl ch)))"

text \<open>\<^verbatim>\<open>self.dds.wait_trigger(self.slot, self.channel, trigger, update_before_wait=False)\<close>\<close>

definition wait_trigger :: "TriggerEvent list \<Rightarrow> ('z, unit) exec" where
  "wait_trigger trigger =
     bindE (attr slot) (\<lambda>sl.
     bindE attr_channel (\<lambda>ch.
     dds (WaitTrigger sl ch trigger False)))"

text \<open>\<^verbatim>\<open>self.dds.wait_time(self.pulses[j].t, update_before_wait=False)\<close>\<close>

definition wait_time :: "int \<Rightarrow> ('z, unit) exec" where
  "wait_time j =
     bindE (pulse_at j) (\<lambda>q.
     dds (WaitTime (dur q) False))"

subsection \<open>generate and run\<close>

definition WARNING_TWICE :: string where
  "WARNING_TWICE =
     ''WARNING!! If you call the generate method multiple times, you will execute the pulse sequence twice!''
     @ [CHR 0x0A] @ ''This will most likely lead to unexpected behaviour!''"

definition WARNING_NO_PULSES :: string where
  "WARNING_NO_PULSES =
     ''WARNING: you called the generate function without having provided any pulses.''
     @ [CHR 0x0A] @ ''Nothing will be sent to the DDS.''"

text \<open>
  The loop \<^verbatim>\<open>for i in range(len(self.pulses))\<close> of \<^verbatim>\<open>generate\<close>, on the indices still
  to visit. The loop assigns the variable \<^verbatim>\<open>p\<close>, which the code after the loop reads:
  the function takes its value before the loop and returns its value after it.
\<close>

fun generate_loop :: "int list \<Rightarrow> Pulse \<Rightarrow> ('z, Pulse) exec" where
  "generate_loop [] p = returnE p"
| "generate_loop (i # rest) p =
     bindE (pulse_at i) (\<lambda>p.
     bindE (single_tone (freq p) (amp p) (phase p) (Some ''c'')) (\<lambda>_.
     bindE (wait_time (i - 1)) (\<lambda>_.
     bindE push_update (\<lambda>_.
     generate_loop rest p))))"

text \<open>\<^verbatim>\<open>range(n)\<close>\<close>

definition py_range :: "nat \<Rightarrow> int list" where
  "py_range n = map int [0..<n]"

text \<open>
  \<^verbatim>\<open>generate(trigger_option=1, trigger=[TriggerEvent.BNC_IN_A_RISING])\<close>, both arguments
  given explicitly.
\<close>

definition generate :: "int \<Rightarrow> TriggerEvent list \<Rightarrow> ('z, unit) exec" where
  "generate trigger_option trigger =
     bindE (attr generated) (\<lambda>g.
     bindE (if g then print WARNING_TWICE else returnE ()) (\<lambda>_.
     bindE (attr pulses) (\<lambda>ps.
     if length ps = 0 then print WARNING_NO_PULSES
     else
       bindE (pulse_at 0) (\<lambda>p.
       bindE (single_tone (freq p) (amp p) (phase p)
                (if trigger_option = 0 then None else Some ''c'')) (\<lambda>_.
       bindE (if trigger_option = 0 then push_update
              else bindE (wait_trigger trigger) (\<lambda>_. push_update)) (\<lambda>_.
       bindE (attr pulses) (\<lambda>ps.
       bindE (generate_loop (py_range (length ps)) p) (\<lambda>p.
       bindE (single_tone (freq p) 0 (phase p) (Some ''c'')) (\<lambda>_.
       bindE (wait_time (- 1)) (\<lambda>_.
       bindE push_update (\<lambda>_.
       set_generated True)))))))))))"

text \<open>\<^verbatim>\<open>run()\<close>: \<^verbatim>\<open>generate\<close> is called with its default arguments.\<close>

definition run :: "('z, unit) exec" where
  "run =
     bindE (attr generated) (\<lambda>g.
     bindE (if \<not> g then generate 1 [BNC_IN_A_RISING] else returnE ()) (\<lambda>_.
     bindE (attr slot) (\<lambda>sl.
     dds (Run sl))))"

subsection \<open>The calls a completed generate makes, as a list\<close>

text \<open>
  The calls of one pass of the loop body at index \<open>i\<close>: \<^verbatim>\<open>self.pulses[i - 1]\<close> is the
  last pulse when \<open>i = 0\<close>.
\<close>

definition body_calls :: "int \<Rightarrow> int \<Rightarrow> Pulse list \<Rightarrow> nat \<Rightarrow> dds_call list" where
  "body_calls sl ch ps i =
     [SingleTone sl ch (freq (ps ! i)) (amp (ps ! i)) (phase (ps ! i)) (Some ''c''),
      WaitTime (dur (if i = 0 then last ps else ps ! (i - 1))) False,
      PushUpdate sl ch]"

definition prime_calls :: "int \<Rightarrow> TriggerEvent list \<Rightarrow> int \<Rightarrow> int \<Rightarrow> Pulse \<Rightarrow> dds_call list" where
  "prime_calls trigger_option trigger sl ch p =
     (if trigger_option = 0
      then [SingleTone sl ch (freq p) (amp p) (phase p) None, PushUpdate sl ch]
      else [SingleTone sl ch (freq p) (amp p) (phase p) (Some ''c''),
            WaitTrigger sl ch trigger False, PushUpdate sl ch])"

definition shutdown_calls :: "int \<Rightarrow> int \<Rightarrow> Pulse \<Rightarrow> dds_call list" where
  "shutdown_calls sl ch p =
     [SingleTone sl ch (freq p) 0 (phase p) (Some ''c''), WaitTime (dur p) False, PushUpdate sl ch]"

definition generate_calls :: "int \<Rightarrow> TriggerEvent list \<Rightarrow> int \<Rightarrow> int \<Rightarrow> Pulse list \<Rightarrow> dds_call list" where
  "generate_calls trigger_option trigger sl ch ps =
     (case ps of [] \<Rightarrow> []
      | p0 # _ \<Rightarrow> prime_calls trigger_option trigger sl ch p0
           @ concat (map (body_calls sl ch ps) [0..<length ps])
           @ shutdown_calls sl ch (last ps))"

subsection \<open>Example objects\<close>

text \<open>
  \<^verbatim>\<open>PulseSequence(dds, 1, 2)\<close> with the default frequency and amplitude, and the two-pulse
  sequence of the specification's example built on it with \<^verbatim>\<open>add_pulse\<close>.
\<close>

definition fresh_sequence :: PulseSequence where
  "fresh_sequence = PulseSequence_init 1 2 1000000 1"

definition spec_example :: PulseSequence where
  "spec_example =
     add_pulse (2 / 1000000) (Some 2000000) (Some (1 / 2)) 90
       (add_pulse (1 / 1000000) (Some 1000000) (Some 1) 0 fresh_sequence)"

definition empty_world :: world where
  "empty_world = \<lparr>calls = [], stdout = []\<rparr>"

definition fresh_qubit_sequence :: QubitPulseSequence where
  "fresh_qubit_sequence = QubitPulseSequence_init 1 2 (1 / 1000000) 1000000 1"

section \<open>What generate and run do\<close>

lemmas exec_defs = returnE_def bindE_def attr_def attr_channel_def pulse_at_def print_def
  dds_def set_generated_def single_tone_def push_update_def wait_trigger_def wait_time_def

lemma py_index_nat: "i < length xs \<Longrightarrow> py_index xs (int i) = Inr (xs ! i)"
  by (simp add: py_index_def)

lemma py_index_pred:
  "i < length xs \<Longrightarrow> py_index xs (int i - 1) = Inr (if i = 0 then last xs else xs ! (i - 1))"
  by (cases xs rule: rev_cases) (auto simp: py_index_def nth_append nat_diff_distrib' )

lemma py_index_last: "xs \<noteq> [] \<Longrightarrow> py_index xs (- 1) = Inr (last xs)"
  using py_index_pred [of 0 xs] by simp

lemma generate_loop_calls:
  assumes "channel s = Some c" and "\<forall>i\<in>set js. i < length (pulses s)"
  shows "generate_loop (map int js) p (s, w) =
     (Inr (last (p # map ((!) (pulses s)) js)), s,
      w\<lparr>calls := calls w @ concat (map (body_calls (slot s) c (pulses s)) js)\<rparr>)"
  using assms
proof (induction js arbitrary: p w)
  case Nil
  then show ?case by (simp add: returnE_def)
next
  case (Cons j js)
  then have j: "j < length (pulses s)" by simp
  show ?case
    using Cons.prems Cons.IH
    by (simp add: exec_defs py_index_nat [OF j] py_index_pred [OF j] body_calls_def)
qed

lemma generate_empty:
  "pulses s = [] \<Longrightarrow> generate opt trig (s, w) =
     (Inr (), s, w\<lparr>stdout := stdout w @ (if generated s then [WARNING_TWICE] else []) @ [WARNING_NO_PULSES]\<rparr>)"
  by (simp add: generate_def exec_defs)

lemma generate_no_channel:
  "pulses s \<noteq> [] \<Longrightarrow> channel s = None \<Longrightarrow> generate opt trig (s, w) =
     (Inl (AttributeError ''channel''), s,
      w\<lparr>stdout := stdout w @ (if generated s then [WARNING_TWICE] else [])\<rparr>)"
  by (cases "pulses s") (simp_all add: generate_def exec_defs py_index_def)

lemma py_index_hd: "xs \<noteq> [] \<Longrightarrow> py_index xs 0 = Inr (hd xs)"
  by (cases xs) (simp_all add: py_index_def)

lemma generate_calls_nonempty:
  "ps \<noteq> [] \<Longrightarrow> generate_calls opt trig sl ch ps =
     prime_calls opt trig sl ch (hd ps)
       @ concat (map (body_calls sl ch ps) [0..<length ps])
       @ shutdown_calls sl ch (last ps)"
  by (cases ps) (simp_all add: generate_calls_def)

lemma generate_channel:
  assumes "pulses s \<noteq> []" and "channel s = Some c"
  shows "generate opt trig (s, w) =
     (Inr (), s\<lparr>generated := True\<rparr>,
      w\<lparr>stdout := stdout w @ (if generated s then [WARNING_TWICE] else []),
        calls := calls w @ generate_calls opt trig (slot s) c (pulses s)\<rparr>)"
proof -
  have idx: "\<forall>i\<in>set [0..<length (pulses s)]. i < length (pulses s)" by simp
  note loop = generate_loop_calls [OF assms(2) idx]
  show ?thesis
    using assms
    by (simp add: generate_def exec_defs py_range_def loop map_nth py_index_last py_index_hd
        generate_calls_nonempty prime_calls_def shutdown_calls_def)
qed

lemma generate_seq:
  "fst (snd (generate opt trig (s, w))) =
     (if pulses s \<noteq> [] \<and> channel s \<noteq> None then s\<lparr>generated := True\<rparr> else s)"
proof (cases "pulses s = []")
  case True
  then show ?thesis by (simp add: generate_empty)
next
  case ne: False
  show ?thesis
  proof (cases "channel s")
    case None
    then show ?thesis using ne by (simp add: generate_no_channel)
  next
    case (Some c)
    then show ?thesis using ne by (simp add: generate_channel)
  qed
qed

lemma generate_result:
  "fst (generate opt trig (s, w)) =
     (if pulses s \<noteq> [] \<and> channel s = None then Inl (AttributeError ''channel'') else Inr ())"
proof (cases "pulses s = []")
  case True
  then show ?thesis by (simp add: generate_empty)
next
  case ne: False
  show ?thesis
  proof (cases "channel s")
    case None
    then show ?thesis using ne by (simp add: generate_no_channel)
  next
    case (Some c)
    then show ?thesis using ne by (simp add: generate_channel)
  qed
qed

lemma run_generated:
  "generated s \<Longrightarrow> run (s, w) = (Inr (), s, w\<lparr>calls := calls w @ [Run (slot s)]\<rparr>)"
  by (simp add: run_def exec_defs)

lemma run_not_generated:
  "\<not> generated s \<Longrightarrow> run (s, w) =
     (case generate 1 [BNC_IN_A_RISING] (s, w) of
        (Inl e, st) \<Rightarrow> (Inl e, st)
      | (Inr u, s', w') \<Rightarrow> (Inr (), s', w'\<lparr>calls := calls w' @ [Run (slot s')]\<rparr>))"
  by (simp add: run_def exec_defs split: prod.splits sum.splits)

lemma run_seq:
  "fst (snd (run (s, w))) =
     (if generated s then s else fst (snd (generate 1 [BNC_IN_A_RISING] (s, w))))"
  by (simp add: run_generated run_not_generated split: prod.splits sum.splits)

subsection \<open>The example objects\<close>

lemmas example_defs = fresh_sequence_def spec_example_def empty_world_def add_pulse_def
  PulseSequence_init_def Pulse_init_def

lemma spec_example_pulses:
  "pulses spec_example =
     [Pulse_init 1000000 1 0 (1 / 1000000), Pulse_init 2000000 (1 / 2) 90 (2 / 1000000)]"
  by (simp add: example_defs)

lemma spec_example_attrs:
  "slot spec_example = 2" "channel spec_example = None" "generated spec_example = False"
  by (simp_all add: example_defs)

lemma generate_calls_example:
  "generate_calls opt trig 2 2 (pulses spec_example) =
     prime_calls opt trig 2 2 (Pulse_init 1000000 1 0 (1 / 1000000)) @
     [SingleTone 2 2 1000000 1 0 (Some ''c''), WaitTime (2 / 1000000) False, PushUpdate 2 2,
      SingleTone 2 2 2000000 (1 / 2) 90 (Some ''c''), WaitTime (1 / 1000000) False, PushUpdate 2 2,
      SingleTone 2 2 2000000 0 90 (Some ''c''), WaitTime (2 / 1000000) False, PushUpdate 2 2]"
  by (simp add: spec_example_pulses generate_calls_def body_calls_def shutdown_calls_def
      Pulse_init_def upt_rec)

section \<open>The claims\<close>

text \<open>
  C1 (the code differs): under \<^verbatim>\<open>trigger_option = 0\<close> a list of \<open>n\<close> pulses should
  give \<open>n + 1\<close> stage calls, \<open>n + 1\<close> commits and \<open>n\<close> waits, the wait after staging
  pulse \<open>i\<close> being the duration of pulse \<open>i - 1\<close>. On the two-pulse example the code does
  otherwise. On the object as \<^verbatim>\<open>__init__\<close> leaves it, \<^verbatim>\<open>generate\<close> raises
  \<^verbatim>\<open>AttributeError\<close> at its first device call and nothing is sent. Once the attribute
  \<^verbatim>\<open>channel\<close> is assigned, the loop starts at index 0: the first pulse is staged a second
  time, followed by a wait of the last pulse's duration (\<^verbatim>\<open>self.pulses[-1].t\<close>), so 4 stage
  calls, 4 commits and 3 waits are sent.
\<close>

theorem generate_immediate_spec_example:
  "generate 0 [BNC_IN_A_RISING] (spec_example, empty_world)
     = (Inl (AttributeError ''channel''), spec_example, empty_world)
   \<and> calls (snd (snd (generate 0 [BNC_IN_A_RISING]
        (spec_example\<lparr>channel := Some 2\<rparr>, empty_world))))
     = [SingleTone 2 2 1000000 1 0 None, PushUpdate 2 2,
        SingleTone 2 2 1000000 1 0 (Some ''c''), WaitTime (2 / 1000000) False, PushUpdate 2 2,
        SingleTone 2 2 2000000 (1 / 2) 90 (Some ''c''), WaitTime (1 / 1000000) False, PushUpdate 2 2,
        SingleTone 2 2 2000000 0 90 (Some ''c''), WaitTime (2 / 1000000) False, PushUpdate 2 2]"
proof -
  have ne: "pulses spec_example \<noteq> []" by (simp add: spec_example_pulses)
  have "generate 0 [BNC_IN_A_RISING] (spec_example, empty_world)
     = (Inl (AttributeError ''channel''), spec_example, empty_world)"
    using generate_no_channel [OF ne spec_example_attrs(2)]
    by (simp add: spec_example_attrs)
  moreover have "calls (snd (snd (generate 0 [BNC_IN_A_RISING]
        (spec_example\<lparr>channel := Some 2\<rparr>, empty_world))))
     = generate_calls 0 [BNC_IN_A_RISING] 2 2 (pulses spec_example)"
    using generate_channel [of "spec_example\<lparr>channel := Some 2\<rparr>" 2] ne
    by (simp add: spec_example_attrs empty_world_def)
  ultimately show ?thesis
    by (simp add: generate_calls_example prime_calls_def Pulse_init_def)
qed

text \<open>
  C2 (the code differs): under \<^verbatim>\<open>trigger_option = 2\<close> every wait between pulses should be
  a wait for the trigger. The code tests \<^verbatim>\<open>trigger_option == 0\<close> only: on the two-pulse
  example (attribute \<^verbatim>\<open>channel\<close> assigned) option 2 sends one \<^verbatim>\<open>wait_trigger\<close>, before
  the first commit, and three \<^verbatim>\<open>wait_time\<close> calls with the pulses' durations, exactly as
  option 1 does.
\<close>

theorem generate_per_pulse_trigger_spec_example:
  "calls (snd (snd (generate 2 [BNC_IN_A_RISING]
        (spec_example\<lparr>channel := Some 2\<rparr>, empty_world))))
     = [SingleTone 2 2 1000000 1 0 (Some ''c''), WaitTrigger 2 2 [BNC_IN_A_RISING] False, PushUpdate 2 2,
        SingleTone 2 2 1000000 1 0 (Some ''c''), WaitTime (2 / 1000000) False, PushUpdate 2 2,
        SingleTone 2 2 2000000 (1 / 2) 90 (Some ''c''), WaitTime (1 / 1000000) False, PushUpdate 2 2,
        SingleTone 2 2 2000000 0 90 (Some ''c''), WaitTime (2 / 1000000) False, PushUpdate 2 2]
   \<and> generate 2 [BNC_IN_A_RISING] (spec_example\<lparr>channel := Some 2\<rparr>, empty_world)
     = generate 1 [BNC_IN_A_RISING] (spec_example\<lparr>channel := Some 2\<rparr>, empty_world)"
proof -
  have ne: "pulses (spec_example\<lparr>channel := Some 2\<rparr>) \<noteq> []" by (simp add: spec_example_pulses)
  have ch: "channel (spec_example\<lparr>channel := Some 2\<rparr>) = Some 2" by simp
  show ?thesis
    by (simp add: generate_channel [OF ne ch] spec_example_attrs generate_calls_example
        prime_calls_def Pulse_init_def empty_world_def)
qed

text \<open>
  C3 (the code differs): the slot and the channel given to the constructor should be stored
  as they are and passed to every device call. \<^verbatim>\<open>PulseSequence(dds, 1, 2)\<close> stores 2, the
  channel, as its slot and stores no channel; and the \<^verbatim>\<open>wait_time\<close> calls of
  \<^verbatim>\<open>generate\<close> carry a duration and a flag, no slot and no channel.
\<close>

theorem slot_channel_spec_example:
  "slot (PulseSequence_init 1 2 1000000 1) = 2
   \<and> channel (PulseSequence_init 1 2 1000000 1) = None
   \<and> WaitTime (2 / 1000000) False \<in> set (calls (snd (snd (generate 1 [BNC_IN_A_RISING]
        (spec_example\<lparr>channel := Some 2\<rparr>, empty_world)))))"
proof -
  have ne: "pulses (spec_example\<lparr>channel := Some 2\<rparr>) \<noteq> []" by (simp add: spec_example_pulses)
  have ch: "channel (spec_example\<lparr>channel := Some 2\<rparr>) = Some 2" by simp
  show ?thesis
    by (simp add: generate_channel [OF ne ch] spec_example_attrs generate_calls_example
        prime_calls_def Pulse_init_def empty_world_def PulseSequence_init_def)
qed

text \<open>
  C4: on a qubit sequence, \<^verbatim>\<open>add_x_pulse(theta)\<close> and \<^verbatim>\<open>add_pulse(0, theta)\<close> append a
  pulse of phase 0 and duration \<open>theta / pi * pi_pulse_time\<close>; \<^verbatim>\<open>add_y_pulse(theta)\<close> and
  \<^verbatim>\<open>add_pulse(pi / 2, theta)\<close> append a pulse of phase 90 and the same duration; all four
  take the frequency and the amplitude of the sequence; \<^verbatim>\<open>add_x_pulse(0)\<close> appends a pulse
  of duration 0. (Floats are read as reals.)
\<close>

theorem rotation_mapping:
  "add_x_pulse theta q = q\<lparr>pulses := pulses q @
      [\<lparr>freq = seq_freq q, amp = seq_amp q, phase = 0,
        dur = theta / pi * pi_pulse_time q, cls = XPulseC\<rparr>]\<rparr>
   \<and> QubitPulseSequence_add_pulse 0 theta q = q\<lparr>pulses := pulses q @
      [\<lparr>freq = seq_freq q, amp = seq_amp q, phase = 0,
        dur = theta / pi * pi_pulse_time q, cls = PulseC\<rparr>]\<rparr>
   \<and> add_y_pulse theta q = q\<lparr>pulses := pulses q @
      [\<lparr>freq = seq_freq q, amp = seq_amp q, phase = 90,
        dur = theta / pi * pi_pulse_time q, cls = YPulseC\<rparr>]\<rparr>
   \<and> QubitPulseSequence_add_pulse (pi / 2) theta q = q\<lparr>pulses := pulses q @
      [\<lparr>freq = seq_freq q, amp = seq_amp q, phase = 90,
        dur = theta / pi * pi_pulse_time q, cls = PulseC\<rparr>]\<rparr>
   \<and> dur (last (pulses (add_x_pulse 0 q))) = 0"
  by (simp add: add_x_pulse_def add_y_pulse_def QubitPulseSequence_add_pulse_def
      XPulse_init_def YPulse_init_def Pulse_init_def angle_to_time_def)

text \<open>
  C5: \<^verbatim>\<open>generate\<close> on a sequence with no pulses returns normally, prints the warning that
  no pulses were provided (after the warning about a second call, if the flag is set), makes
  no device call and leaves the sequence as it is.
\<close>

theorem generate_empty_pulses:
  assumes "pulses s = []"
  shows "generate opt trig (s, w) =
           (Inr (), s, w\<lparr>stdout := stdout w @
              (if generated s then [WARNING_TWICE] else []) @ [WARNING_NO_PULSES]\<rparr>)
         \<and> calls (snd (snd (generate opt trig (s, w)))) = calls w"
  using assms by (simp add: generate_empty)

theorem generate_empty_pulses_witness:
  "pulses fresh_sequence = []
   \<and> generate 1 [BNC_IN_A_RISING] (fresh_sequence, empty_world) =
       (Inr (), fresh_sequence, \<lparr>calls = [], stdout = [WARNING_NO_PULSES]\<rparr>)"
proof -
  have e: "pulses fresh_sequence = []" by (simp add: example_defs)
  show ?thesis
    using generate_empty_pulses [OF e, of 1 "[BNC_IN_A_RISING]" empty_world] e
    by (simp add: example_defs)
qed

text \<open>
  C6: \<^verbatim>\<open>generate\<close> on a sequence whose flag \<^verbatim>\<open>generated\<close> is already set (so its pulse
  list is not empty and its attribute \<^verbatim>\<open>channel\<close> is present) prints the warning about a
  second call, returns normally and sends the whole stream again: the calls it adds are not
  empty and are the ones the same call adds when the flag is not set. The second part says
  that the state a first, flag-setting call of \<^verbatim>\<open>generate\<close> ends in is such a sequence.
\<close>

theorem generate_again:
  "(generated s \<and> pulses s \<noteq> [] \<and> channel s = Some c \<longrightarrow>
      generate opt trig (s, w) =
        (Inr (), s, w\<lparr>stdout := stdout w @ [WARNING_TWICE],
                      calls := calls w @ generate_calls opt trig (slot s) c (pulses s)\<rparr>)
      \<and> generate opt trig (s\<lparr>generated := False\<rparr>, w) =
        (Inr (), s, w\<lparr>calls := calls w @ generate_calls opt trig (slot s) c (pulses s)\<rparr>)
      \<and> generate_calls opt trig (slot s) c (pulses s) \<noteq> [])
   \<and> (\<not> generated s' \<and> generate opt' trig' (s', w') = (r, s, w) \<and> generated s \<longrightarrow>
        pulses s \<noteq> [] \<and> channel s \<noteq> None)"
proof (intro conjI impI)
  assume a: "generated s \<and> pulses s \<noteq> [] \<and> channel s = Some c"
  then have ne: "pulses s \<noteq> []" and ch: "channel s = Some c" and g: "generated s" by simp_all
  have s: "s\<lparr>generated := True\<rparr> = s" using g by simp
  show "generate opt trig (s, w) =
        (Inr (), s, w\<lparr>stdout := stdout w @ [WARNING_TWICE],
                      calls := calls w @ generate_calls opt trig (slot s) c (pulses s)\<rparr>)"
    using generate_channel [OF ne ch, of opt trig w] g s by simp
  have ne': "pulses (s\<lparr>generated := False\<rparr>) \<noteq> []"
    and ch': "channel (s\<lparr>generated := False\<rparr>) = Some c"
    using ne ch by simp_all
  show "generate opt trig (s\<lparr>generated := False\<rparr>, w) =
        (Inr (), s, w\<lparr>calls := calls w @ generate_calls opt trig (slot s) c (pulses s)\<rparr>)"
    using generate_channel [OF ne' ch', of opt trig w] s by simp
  show "generate_calls opt trig (slot s) c (pulses s) \<noteq> []"
    using ne by (simp add: generate_calls_nonempty prime_calls_def)
next
  assume b: "\<not> generated s' \<and> generate opt' trig' (s', w') = (r, s, w) \<and> generated s"
  then have s: "s = fst (snd (generate opt' trig' (s', w')))" by simp
  from b have "s \<noteq> s'" by auto
  with s have "pulses s' \<noteq> [] \<and> channel s' \<noteq> None \<and> s = s'\<lparr>generated := True\<rparr>"
    by (simp add: generate_seq split: if_splits)
  then show "pulses s \<noteq> []" and "channel s \<noteq> None" by auto
qed

theorem generate_again_witness:
  "(let cs = [SingleTone 2 2 1000000 1 0 None, PushUpdate 2 2,
        SingleTone 2 2 1000000 1 0 (Some ''c''), WaitTime (2 / 1000000) False, PushUpdate 2 2,
        SingleTone 2 2 2000000 (1 / 2) 90 (Some ''c''), WaitTime (1 / 1000000) False, PushUpdate 2 2,
        SingleTone 2 2 2000000 0 90 (Some ''c''), WaitTime (2 / 1000000) False, PushUpdate 2 2]
    in generate 0 [BNC_IN_A_RISING] (spec_example\<lparr>channel := Some 2\<rparr>, empty_world) =
         (Inr (), spec_example\<lparr>channel := Some 2, generated := True\<rparr>,
          \<lparr>calls = cs, stdout = []\<rparr>)
       \<and> generate 0 [BNC_IN_A_RISING]
           (spec_example\<lparr>channel := Some 2, generated := True\<rparr>, \<lparr>calls = cs, stdout = []\<rparr>) =
         (Inr (), spec_example\<lparr>channel := Some 2, generated := True\<rparr>,
          \<lparr>calls = cs @ cs, stdout = [WARNING_TWICE]\<rparr>))"
proof -
  let ?s0 = "spec_example\<lparr>channel := Some 2\<rparr>"
  let ?s1 = "spec_example\<lparr>channel := Some 2, generated := True\<rparr>"
  let ?cs = "generate_calls 0 [BNC_IN_A_RISING] 2 2 (pulses spec_example)"
  let ?w1 = "\<lparr>calls = ?cs, stdout = []\<rparr>"
  have ne: "pulses ?s0 \<noteq> []" by (simp add: spec_example_pulses)
  have ch: "channel ?s0 = Some 2" by simp
  have first: "generate 0 [BNC_IN_A_RISING] (?s0, empty_world) = (Inr (), ?s1, ?w1)"
    by (simp add: generate_channel [OF ne ch] spec_example_attrs empty_world_def)
  note again = generate_again [where s' = ?s0 and w' = empty_world and opt' = 0
      and trig' = "[BNC_IN_A_RISING]" and r = "Inr ()" and s = ?s1 and w = ?w1 and c = 2
      and opt = 0 and trig = "[BNC_IN_A_RISING]"]
  have "\<not> generated ?s0 \<and> generate 0 [BNC_IN_A_RISING] (?s0, empty_world) = (Inr (), ?s1, ?w1)
      \<and> generated ?s1"
    using first by (simp add: spec_example_attrs)
  with again have "pulses ?s1 \<noteq> [] \<and> channel ?s1 \<noteq> None" by blast
  then have "generated ?s1 \<and> pulses ?s1 \<noteq> [] \<and> channel ?s1 = Some 2" by simp
  with again have second: "generate 0 [BNC_IN_A_RISING] (?s1, ?w1) =
      (Inr (), ?s1, ?w1\<lparr>stdout := stdout ?w1 @ [WARNING_TWICE],
         calls := calls ?w1 @ generate_calls 0 [BNC_IN_A_RISING] (slot ?s1) 2 (pulses ?s1)\<rparr>)"
    by blast
  have cs: "?cs = [SingleTone 2 2 1000000 1 0 None, PushUpdate 2 2,
        SingleTone 2 2 1000000 1 0 (Some ''c''), WaitTime (2 / 1000000) False, PushUpdate 2 2,
        SingleTone 2 2 2000000 (1 / 2) 90 (Some ''c''), WaitTime (1 / 1000000) False, PushUpdate 2 2,
        SingleTone 2 2 2000000 0 90 (Some ''c''), WaitTime (2 / 1000000) False, PushUpdate 2 2]"
    by (simp add: generate_calls_example prime_calls_def Pulse_init_def)
  show ?thesis
    using first second
    by (simp add: spec_example_attrs cs Let_def)
qed

text \<open>
  C7 (the code differs): \<^verbatim>\<open>run\<close> on a sequence that is not yet generated should generate
  it and then start the slot. On the two-pulse example as the constructor and \<^verbatim>\<open>add_pulse\<close>
  build it, the call of \<^verbatim>\<open>generate\<close> inside \<^verbatim>\<open>run\<close> raises \<^verbatim>\<open>AttributeError\<close>
  (the attribute \<^verbatim>\<open>channel\<close> was never assigned): nothing is sent, and the slot is not
  started.
\<close>

theorem run_fresh_spec_example:
  "run (spec_example, empty_world) = (Inl (AttributeError ''channel''), spec_example, empty_world)"
proof -
  have ne: "pulses spec_example \<noteq> []" by (simp add: spec_example_pulses)
  show ?thesis
    using generate_no_channel [OF ne spec_example_attrs(2)]
    by (simp add: run_not_generated spec_example_attrs)
qed

text \<open>
  C8: \<^verbatim>\<open>run\<close> on a sequence with no pulses (whose flag is therefore not set) returns
  normally; it prints the warning of \<^verbatim>\<open>generate\<close>, sends no stage, wait or commit call,
  sends the start of its slot, and the flag stays unset.
\<close>

theorem run_empty_pulses:
  assumes "pulses s = []" and "\<not> generated s"
  shows "run (s, w) =
           (Inr (), s, w\<lparr>stdout := stdout w @ [WARNING_NO_PULSES],
                         calls := calls w @ [Run (slot s)]\<rparr>)
         \<and> \<not> generated (fst (snd (run (s, w))))"
  using assms by (simp add: run_not_generated generate_empty)

theorem run_empty_pulses_witness:
  "pulses fresh_sequence = [] \<and> \<not> generated fresh_sequence
   \<and> run (fresh_sequence, empty_world) =
       (Inr (), fresh_sequence, \<lparr>calls = [Run 2], stdout = [WARNING_NO_PULSES]\<rparr>)"
proof -
  have e: "pulses fresh_sequence = []" and g: "\<not> generated fresh_sequence"
    by (simp_all add: example_defs)
  show ?thesis
    using run_empty_pulses [OF e g, of empty_world] e g
    by (simp add: example_defs)
qed

text \<open>
  C9: whatever the trigger option, and whether \<^verbatim>\<open>generate\<close> returns or raises, the
  sequence it leaves has the pulse list, the default frequency and amplitude, the slot and
  the channel it started with: it differs from the initial one in the flag
  \<^verbatim>\<open>generated\<close> at most.
\<close>

theorem generate_frame:
  "pulses (fst (snd (generate opt trig (s, w)))) = pulses s
   \<and> default_freq (fst (snd (generate opt trig (s, w)))) = default_freq s
   \<and> default_amp (fst (snd (generate opt trig (s, w)))) = default_amp s
   \<and> slot (fst (snd (generate opt trig (s, w)))) = slot s
   \<and> channel (fst (snd (generate opt trig (s, w)))) = channel s
   \<and> (\<exists>b. fst (snd (generate opt trig (s, w))) = s\<lparr>generated := b\<rparr>)"
proof -
  obtain b where eq: "fst (snd (generate opt trig (s, w))) = s\<lparr>generated := b\<rparr>"
  proof (cases "pulses s \<noteq> [] \<and> channel s \<noteq> None")
    case True
    then have "fst (snd (generate opt trig (s, w))) = s\<lparr>generated := True\<rparr>"
      by (simp add: generate_seq)
    then show ?thesis by (rule that)
  next
    case False
    then have "fst (snd (generate opt trig (s, w))) = s\<lparr>generated := generated s\<rparr>"
      by (auto simp add: generate_seq)
    then show ?thesis by (rule that)
  qed
  show ?thesis unfolding eq by auto
qed

text \<open>
  C10: the flag \<^verbatim>\<open>generated\<close> is unset after construction; the methods that add a pulse
  leave it as it is; \<^verbatim>\<open>generate\<close> and \<^verbatim>\<open>run\<close> never unset it; and when it is unset
  before \<^verbatim>\<open>generate\<close> (or \<^verbatim>\<open>run\<close>, which calls it) and set after, the pulse list was not
  empty and \<^verbatim>\<open>generate\<close> returned normally.
\<close>

theorem generated_flag_monotone:
  "\<not> generated (PulseSequence_init sl ch df da)
   \<and> \<not> generated (QubitPulseSequence_init sl ch ppt f a)
   \<and> generated (add_pulse d fo ao ph s) = generated s
   \<and> generated (QubitPulseSequence_add_pulse phi theta q) = generated q
   \<and> generated (add_x_pulse theta q) = generated q
   \<and> generated (add_y_pulse theta q) = generated q
   \<and> (generated s \<longrightarrow> generated (fst (snd (generate opt trig (s, w)))))
   \<and> (generated s \<longrightarrow> generated (fst (snd (run (s, w)))))
   \<and> (\<not> generated s \<and> generated (fst (snd (generate opt trig (s, w))))
        \<longrightarrow> pulses s \<noteq> [] \<and> fst (generate opt trig (s, w)) = Inr ())
   \<and> (\<not> generated s \<and> generated (fst (snd (run (s, w))))
        \<longrightarrow> pulses s \<noteq> [] \<and> fst (generate 1 [BNC_IN_A_RISING] (s, w)) = Inr ())"
  by (simp add: generate_seq generate_result run_seq PulseSequence_init_def
      QubitPulseSequence_init_def PulseSequence.extend_def add_pulse_def
      QubitPulseSequence_add_pulse_def add_x_pulse_def add_y_pulse_def Let_def)

theorem generated_flag_monotone_witness:
  "\<not> generated (spec_example\<lparr>channel := Some 2\<rparr>)
   \<and> generated (fst (snd (generate 0 [BNC_IN_A_RISING] (spec_example\<lparr>channel := Some 2\<rparr>, empty_world))))
   \<and> pulses (spec_example\<lparr>channel := Some 2\<rparr>) \<noteq> []
   \<and> fst (generate 0 [BNC_IN_A_RISING] (spec_example\<lparr>channel := Some 2\<rparr>, empty_world)) = Inr ()"
proof -
  have ne: "pulses (spec_example\<lparr>channel := Some 2\<rparr>) \<noteq> []" by (simp add: spec_example_pulses)
  have ch: "channel (spec_example\<lparr>channel := Some 2\<rparr>) = Some 2" by simp
  have g: "generated (fst (snd (generate 0 [BNC_IN_A_RISING]
      (spec_example\<lparr>channel := Some 2\<rparr>, empty_world))))"
    by (simp add: generate_channel [OF ne ch])
  show ?thesis
    using generated_flag_monotone [where s = "spec_example\<lparr>channel := Some 2\<rparr>" and opt = 0
        and trig = "[BNC_IN_A_RISING]" and w = empty_world and q = fresh_qubit_sequence
        and sl = 1 and ch = 2 and df = 1000000 and da = 1 and ppt = "1 / 1000000"
        and f = 1000000 and a = 1 and d = "1 / 1000000" and fo = None and ao = None
        and ph = 0 and phi = 0 and theta = 0] g
    by (simp add: spec_example_attrs)
qed

end
